theory Spec2Isabelle
  imports Complex_Main "HOL-Library.AList"
begin

section \<open>Workflow documents\<close>

text \<open>
  The commands of \<^verbatim>\<open>cli/src/commands/workflow/workflow.ts\<close> work on the value that
  \<^verbatim>\<open>yaml.parse\<close> returns for a workflow document. The document is modelled at the shape
  shown by the scaffold templates of the same file (lines 204-278): a list of steps, each
  with a string \<^verbatim>\<open>id\<close>, a string \<^verbatim>\<open>type\<close> and the optional fields \<^verbatim>\<open>prompt_file\<close>,
  \<^verbatim>\<open>command\<close> and \<^verbatim>\<open>policy\<close>, which the code only tests for truthiness and which are
  therefore kept as JavaScript values.

  Strings are byte lists: a character outside ASCII appears as its UTF-8 bytes.
\<close>

datatype jsnum = Fin rat | NaN | PosInf | NegInf

datatype jsval =
    JUndefined
  | JNull
  | JBool bool
  | JNum jsnum
  | JStr string
  | JArr "jsval list"
  | JObj "(string \<times> jsval) list"

text \<open>JavaScript truthiness (\<^verbatim>\<open>!v\<close> is its negation).\<close>

fun truthy :: "jsval \<Rightarrow> bool" where
  "truthy JUndefined = False"
| "truthy JNull = False"
| "truthy (JBool b) = b"
| "truthy (JNum (Fin q)) = (q \<noteq> 0)"
| "truthy (JNum NaN) = False"
| "truthy (JNum PosInf) = True"
| "truthy (JNum NegInf) = True"
| "truthy (JStr s) = (s \<noteq> [])"
| "truthy (JArr xs) = True"
| "truthy (JObj kvs) = True"

record step =
  step_id :: string
  step_type :: string
  prompt_file :: jsval
  command :: jsval
  policy :: jsval

record workflow =
  steps :: "step list option"
  model :: "string option"
  guardrails :: "string list option"

text \<open>\<^verbatim>\<open>workflow.steps || []\<close>: an absent \<^verbatim>\<open>steps\<close> is the empty list.\<close>

definition steps_or_empty :: "workflow \<Rightarrow> step list" where
  "steps_or_empty doc = (case steps doc of None \<Rightarrow> [] | Some ss \<Rightarrow> ss)"

section \<open>The diagram command (workflow.ts, lines 141-164)\<close>

definition dq :: char where "dq = CHR 0x22"
definition nl :: char where "nl = CHR 0x0A"

















section \<open>The process: console, file system, exit\<close>

text \<open>
  \<^verbatim>\<open>console.log\<close> writes a line to standard output, \<^verbatim>\<open>console.error\<close> to standard
  error. \<^verbatim>\<open>process.exit(n)\<close> ends the process at once with code \<open>n\<close>; a command that
  returns leaves \<open>exit_code\<close> as it was (\<open>None\<close>: the process ends with code 0). The file
  system maps a resolved path to a file with its text, or to a directory; the functions of
  \<^verbatim>\<open>fs\<close> resolve the path they are given, as \<^verbatim>\<open>path.resolve\<close> does.
\<close>

datatype stream = Stdout | Stderr

datatype fsnode = File string | Dir

record world =
  fs :: "string \<rightharpoonup> fsnode"
  console :: "(stream \<times> string) list"
  exit_code :: "nat option"

definition console_log :: "string \<Rightarrow> world \<Rightarrow> world" where
  "console_log line w = w\<lparr>console := console w @ [(Stdout, line)]\<rparr>"

definition console_error :: "string \<Rightarrow> world \<Rightarrow> world" where
  "console_error line w = w\<lparr>console := console w @ [(Stderr, line)]\<rparr>"

definition process_exit :: "nat \<Rightarrow> world \<Rightarrow> world" where
  "process_exit n w = w\<lparr>exit_code := Some n\<rparr>"

definition stderr_lines :: "world \<Rightarrow> string list" where
  "stderr_lines w = map snd (filter (\<lambda>l. fst l = Stderr) (console w))"

text \<open>The directories present after a command that were not there before it.\<close>

definition new_dirs :: "world \<Rightarrow> world \<Rightarrow> string set" where
  "new_dirs w w' = {p. fs w' p = Some Dir \<and> fs w p \<noteq> Some Dir}"

text \<open>
  The library functions the commands call are parameters of the model: \<^verbatim>\<open>yaml.parse\<close>
  (which throws a parse error, with an optional line and column, or returns the document),
  \<^verbatim>\<open>JSON.parse\<close> followed by \<^verbatim>\<open>ajv.compile\<close> on the text of the schema (which throws, or
  returns the compiled validator, and depends on the options of the Ajv instance), \<^verbatim>\<open>path.resolve\<close>, \<^verbatim>\<open>JSON.stringify(v)\<close>,
  \<^verbatim>\<open>JSON.stringify(v, null, 2)\<close> and \<^verbatim>\<open>JSON.parse\<close> (\<open>None\<close> when it throws). The schema
  itself, \<^verbatim>\<open>workflows/schemas/workflow.v1.schema.json\<close>, is a file that the command reads
  from the working directory when it runs.
\<close>

record yaml_error =
  yaml_message :: string
  linePos :: "(nat \<times> nat) option"

record ajv_error =
  instancePath :: string
  message :: "string option"
  data :: jsval

record ajv_result =
  valid :: bool
  errors :: "ajv_error list option"

text \<open>The options given to \<^verbatim>\<open>new Ajv(...)\<close>, and the instance of line 7.\<close>

record ajv_options =
  allErrors :: bool

definition ajv :: ajv_options where
  "ajv = \<lparr>allErrors = True\<rparr>"

record libs =
  yaml_parse :: "string \<Rightarrow> yaml_error + workflow"
  ajv_compile :: "ajv_options \<Rightarrow> string \<Rightarrow> string + (workflow \<Rightarrow> ajv_result)"
  path_resolve :: "string \<Rightarrow> string"
  json_stringify :: "jsval \<Rightarrow> string"
  json_stringify_indent :: "jsval \<Rightarrow> string"
  json_parse :: "string \<Rightarrow> jsval option"

definition existsSync :: "libs \<Rightarrow> world \<Rightarrow> string \<Rightarrow> bool" where
  "existsSync L w p = (fs w (path_resolve L p) \<noteq> None)"

text \<open>\<^verbatim>\<open>fs.readFileSync(p, 'utf-8')\<close>: \<open>Inl\<close> is the message of the error thrown.\<close>

definition readFileSync :: "libs \<Rightarrow> world \<Rightarrow> string \<Rightarrow> string + string" where
  "readFileSync L w p =
     (case fs w (path_resolve L p) of
        None \<Rightarrow> Inl (''ENOENT: no such file or directory, open '' @ [CHR 0x27] @ p @ [CHR 0x27])
      | Some Dir \<Rightarrow> Inl ''EISDIR: illegal operation on a directory, read''
      | Some (File text) \<Rightarrow> Inr text)"

text \<open>Decimal digits of a natural number, as a template literal prints a length.\<close>

definition digit_char :: "nat \<Rightarrow> char" where
  "digit_char d = ''0123456789'' ! d"

function show_nat :: "nat \<Rightarrow> string" where
  "show_nat n = (if n < 10 then [digit_char n] else show_nat (n div 10) @ [digit_char (n mod 10)])"
  by pat_completeness auto
termination
  by (relation "measure id") auto

declare show_nat.simps [simp del]

text \<open>\<^verbatim>\<open>xs.join(', ')\<close>\<close>

fun join_comma :: "string list \<Rightarrow> string" where
  "join_comma [] = []"
| "join_comma [x] = x"
| "join_comma (x # y # ys) = x @ '', '' @ join_comma (y # ys)"

section \<open>The validate command (workflow.ts, lines 13-97)\<close>

definition cross_mark :: string where
  "cross_mark = [CHR 0xE2, CHR 0x9D, CHR 0x8C]"

definition check_mark :: string where
  "check_mark = [CHR 0xE2, CHR 0x9C, CHR 0x85]"

definition sq :: char where "sq = CHR 0x27"

definition duplicate_message :: "step \<Rightarrow> string" where
  "duplicate_message s = cross_mark @ '' Duplicate step ID: '' @ step_id s"

definition prompt_message :: "step \<Rightarrow> string" where
  "prompt_message s =
     cross_mark @ '' Step '' @ [sq] @ step_id s @ [sq] @ '': prompt steps require prompt_file''"

definition cmd_message :: "step \<Rightarrow> string" where
  "cmd_message s =
     cross_mark @ '' Step '' @ [sq] @ step_id s @ [sq] @ '': cmd steps require command''"

definition agent_message :: "step \<Rightarrow> string" where
  "agent_message s =
     cross_mark @ '' Step '' @ [sq] @ step_id s @ [sq] @ '': agent steps require policy constraints''"

text \<open>
  The semantic loop (lines 62-83). \<open>stepIds\<close> is the \<^verbatim>\<open>Set\<close> of the ids seen so far. The
  result is the message of the first check that fails, after which the command exits, or
  \<open>None\<close> when the loop runs to its end.
\<close>

fun check_steps :: "step list \<Rightarrow> string set \<Rightarrow> string option" where
  "check_steps [] stepIds = None"
| "check_steps (s # ss) stepIds =
     (if step_id s \<in> stepIds then Some (duplicate_message s)
      else if step_type s = ''prompt'' \<and> \<not> truthy (prompt_file s) then Some (prompt_message s)
      else if step_type s = ''cmd'' \<and> \<not> truthy (command s) then Some (cmd_message s)
      else if step_type s = ''agent'' \<and> \<not> truthy (policy s) then Some (agent_message s)
      else check_steps ss (insert (step_id s) stepIds))"

text \<open>The lines printed for one schema error (lines 52-55).\<close>

definition schema_error_lines :: "libs \<Rightarrow> ajv_error \<Rightarrow> string list" where
  "schema_error_lines L e =
     (''   '' @ (if instancePath e \<noteq> [] then instancePath e else ''root'') @ '': ''
        @ (case message e of None \<Rightarrow> ''undefined'' | Some m \<Rightarrow> m))
     # (if data e \<noteq> JUndefined then [''   Value: '' @ json_stringify L (data e)] else [])"

fun console_errors :: "string list \<Rightarrow> world \<Rightarrow> world" where
  "console_errors [] w = w"
| "console_errors (l # ls) w = console_errors ls (console_error l w)"

text \<open>The outer \<^verbatim>\<open>catch\<close> (lines 93-96).\<close>

definition validation_caught :: "string \<Rightarrow> world \<Rightarrow> world" where
  "validation_caught msg w =
     process_exit 1 (console_error (cross_mark @ '' Validation error: '' @ msg) w)"

definition validate_passed :: "libs \<Rightarrow> string \<Rightarrow> workflow \<Rightarrow> world \<Rightarrow> world" where
  "validate_passed L file doc w =
     (let w = console_log (check_mark @ '' Workflow validation passed'') w;
          w = console_log (''   File: '' @ path_resolve L file) w;
          w = console_log (''   Steps: ''
                @ show_nat (case steps doc of None \<Rightarrow> 0 | Some ss \<Rightarrow> length ss)) w;
          w = console_log (''   Model: ''
                @ (case model doc of None \<Rightarrow> ''default''
                   | Some m \<Rightarrow> if m \<noteq> [] then m else ''default'')) w
      in case guardrails doc of
           None \<Rightarrow> w
         | Some gs \<Rightarrow> if gs \<noteq> [] then console_log (''   Guardrails: '' @ join_comma gs) w else w)"

definition schema_file :: string where
  "schema_file = ''workflows/schemas/workflow.v1.schema.json''"

text \<open>The schema branch (lines 49-59): every error of the validator is printed, then the
  command exits.\<close>

definition report_schema_errors :: "libs \<Rightarrow> string \<Rightarrow> ajv_result \<Rightarrow> world \<Rightarrow> world" where
  "report_schema_errors L file r w =
     (let w = console_error (cross_mark @ '' Schema validation failed:'') w;
          w = console_errors
                (concat (map (schema_error_lines L)
                   (case errors r of None \<Rightarrow> [] | Some es \<Rightarrow> es))) w;
          w = console_error (''   File: '' @ path_resolve L file) w
      in process_exit 1 w)"

text \<open>The semantic pass and the final report (lines 61-91).\<close>

definition semantic_pass :: "libs \<Rightarrow> string \<Rightarrow> workflow \<Rightarrow> world \<Rightarrow> world" where
  "semantic_pass L file doc w =
     (case check_steps (steps_or_empty doc) {} of
        Some msg \<Rightarrow> process_exit 1 (console_error msg w)
      | None \<Rightarrow> validate_passed L file doc w)"

definition validate_action :: "libs \<Rightarrow> string \<Rightarrow> world \<Rightarrow> world" where
  "validate_action L file w =
     (if \<not> existsSync L w file
      then process_exit 1 (console_error (cross_mark @ '' File not found: '' @ file) w)
      else case readFileSync L w file of
        Inl msg \<Rightarrow> validation_caught msg w
      | Inr content \<Rightarrow>
        (case yaml_parse L content of
           Inl err \<Rightarrow>
             (let w = console_error (cross_mark @ '' YAML parsing error: '' @ yaml_message err) w;
                  w = console_error (''   File: '' @ file) w;
                  w = (case linePos err of
                         None \<Rightarrow> w
                       | Some (line, col) \<Rightarrow>
                           console_error (''   Line: '' @ show_nat line @ '', Column: ''
                                            @ show_nat col) w)
              in process_exit 1 w)
         | Inr doc \<Rightarrow>
             (let schemaPath = path_resolve L schema_file in
              if \<not> existsSync L w schemaPath
              then process_exit 1 (console_error (cross_mark @ '' Schema not found: '' @ schemaPath) w)
              else case readFileSync L w schemaPath of
                Inl msg \<Rightarrow> validation_caught msg w
              | Inr schema_text \<Rightarrow>
                (case ajv_compile L ajv schema_text of
                   Inl msg \<Rightarrow> validation_caught msg w
                 | Inr validate \<Rightarrow>
                     (let r = validate doc in
                      if \<not> valid r then report_schema_errors L file r w
                      else semantic_pass L file doc w)))))"

text \<open>
  \<open>loads L file w doc validate\<close>: in world \<open>w\<close> the command finds and parses the workflow
  file to \<open>doc\<close>, and finds and compiles the schema to \<open>validate\<close>, so that it reaches the
  schema check of line 48.
\<close>

definition loads :: "libs \<Rightarrow> string \<Rightarrow> world \<Rightarrow> workflow \<Rightarrow> (workflow \<Rightarrow> ajv_result) \<Rightarrow> bool" where
  "loads L file w doc validate =
     (\<exists>content schema_text.
        existsSync L w file \<and> readFileSync L w file = Inr content
        \<and> yaml_parse L content = Inr doc
        \<and> existsSync L w (path_resolve L schema_file)
        \<and> readFileSync L w (path_resolve L schema_file) = Inr schema_text
        \<and> ajv_compile L ajv schema_text = Inr validate)"

text \<open>
  What Ajv documents of a compiled validator. A schema determines, for each document, the
  violations that checking all its rules finds, in the order of checking. The validator
  reports the document valid, with \<^verbatim>\<open>errors\<close> null, when there are none. Otherwise it
  reports it invalid, with all the violations in \<^verbatim>\<open>errors\<close> when \<^verbatim>\<open>allErrors\<close> is set, and
  with the first one only when it is not (the default: return after the first error).
\<close>

definition ajv_validate ::
  "ajv_options \<Rightarrow> (workflow \<Rightarrow> ajv_error list) \<Rightarrow> workflow \<Rightarrow> ajv_result" where
  "ajv_validate opts violations doc =
     (case violations doc of
        [] \<Rightarrow> \<lparr>valid = True, errors = None\<rparr>
      | v # vs \<Rightarrow> \<lparr>valid = False, errors = Some (if allErrors opts then v # vs else [v])\<rparr>)"

text \<open>
  \<open>loads_schema L file w doc violations\<close>: the command finds and parses the workflow file
  to \<open>doc\<close> and finds the schema, and the library compiles the schema, under any options,
  to the validator of the schema whose violations are \<open>violations\<close>.
\<close>

definition loads_schema ::
  "libs \<Rightarrow> string \<Rightarrow> world \<Rightarrow> workflow \<Rightarrow> (workflow \<Rightarrow> ajv_error list) \<Rightarrow> bool" where
  "loads_schema L file w doc violations =
     (\<exists>content schema_text.
        existsSync L w file \<and> readFileSync L w file = Inr content
        \<and> yaml_parse L content = Inr doc
        \<and> existsSync L w (path_resolve L schema_file)
        \<and> readFileSync L w (path_resolve L schema_file) = Inr schema_text
        \<and> (\<forall>opts. ajv_compile L opts schema_text = Inr (ajv_validate opts violations)))"

text \<open>The test the loop applies to a step after the id check (lines 71-82).\<close>

definition fails_field_check :: "step \<Rightarrow> bool" where
  "fails_field_check s =
     (step_type s = ''prompt'' \<and> \<not> truthy (prompt_file s)
      \<or> step_type s = ''cmd'' \<and> \<not> truthy (command s)
      \<or> step_type s = ''agent'' \<and> \<not> truthy (policy s))"

definition field_message :: "step \<Rightarrow> string" where
  "field_message s =
     (if step_type s = ''prompt'' then prompt_message s
      else if step_type s = ''cmd'' then cmd_message s
      else agent_message s)"

section \<open>The run and resume commands (workflow.ts, lines 100-126)\<close>

definition play_mark :: string where
  "play_mark = [CHR 0xE2, CHR 0x96, CHR 0xB6, CHR 0xEF, CHR 0xB8, CHR 0x8F]"

definition magnifier_mark :: string where
  "magnifier_mark = [CHR 0xF0, CHR 0x9F, CHR 0x94, CHR 0x8D]"

definition construction_mark :: string where
  "construction_mark = [CHR 0xF0, CHR 0x9F, CHR 0x9A, CHR 0xA7]"

definition forward_mark :: string where
  "forward_mark = [CHR 0xE2, CHR 0x8F, CHR 0xA9]"

text \<open>The options commander passes: \<^verbatim>\<open>--dry-run\<close> and \<^verbatim>\<open>--approve-all\<close> are flags.\<close>

record run_opts =
  dryRun :: bool
  approveAll :: bool

definition run_action :: "string \<Rightarrow> run_opts \<Rightarrow> world \<Rightarrow> world" where
  "run_action file opts w =
     (let w = console_log (play_mark @ ''  Running workflow: '' @ file) w
      in if dryRun opts
         then console_log (magnifier_mark @ '' Dry run mode - would execute:'') w
         else console_log (construction_mark @ '' Workflow execution not yet implemented'') w)"

text \<open>\<^verbatim>\<open>--from <stepId>\<close> is absent or a string; \<^verbatim>\<open>if (opts.from)\<close> is false for the
  empty string as well.\<close>

record resume_opts =
  from_step :: "string option"

definition resume_action :: "string \<Rightarrow> resume_opts \<Rightarrow> world \<Rightarrow> world" where
  "resume_action runId opts w =
     (let w = console_log (forward_mark @ ''  Resume workflow run '' @ runId) w;
          w = (case from_step opts of
                 None \<Rightarrow> w
               | Some stepId \<Rightarrow>
                   if stepId \<noteq> [] then console_log (''   Starting from step: '' @ stepId) w
                   else w)
      in console_log (construction_mark @ '' Resume functionality not yet implemented'') w)"

section \<open>The policy print command (policy.ts, lines 4-108)\<close>




































section \<open>The configuration file (saveConfig, lines 48-76 of the config module)\<close>

text \<open>
  An object is the list of its own properties in insertion order, each key once.
  \<^verbatim>\<open>{ ...src }\<close> copies the own enumerable properties of \<open>src\<close> in order: the entries of
  an object, the elements of an array under their indices, the characters of a string
  under theirs, and nothing for any other value. The names the code reads
  (\<^verbatim>\<open>metadata\<close>, \<^verbatim>\<open>created\<close>) are no properties of a prototype, so reading a property
  looks at the own properties only.
\<close>

datatype js_error = TypeError string | SystemError string

definition own_props :: "jsval \<Rightarrow> (string \<times> jsval) list" where
  "own_props v =
     (case v of
        JObj kvs \<Rightarrow> kvs
      | JArr xs \<Rightarrow> zip (map show_nat [0..<length xs]) xs
      | JStr str \<Rightarrow> zip (map show_nat [0..<length str]) (map (\<lambda>c. JStr [c]) str)
      | _ \<Rightarrow> [])"

definition spread :: "(string \<times> jsval) list \<Rightarrow> (string \<times> jsval) list \<Rightarrow> (string \<times> jsval) list" where
  "spread src target = fold (\<lambda>(k, v). AList.update k v) src target"

text \<open>\<^verbatim>\<open>v.k\<close>: a TypeError on \<^verbatim>\<open>null\<close> and \<^verbatim>\<open>undefined\<close>, the property or
  \<^verbatim>\<open>undefined\<close> otherwise.\<close>

definition get_prop :: "jsval \<Rightarrow> string \<Rightarrow> js_error + jsval" where
  "get_prop v k =
     (if v = JNull \<or> v = JUndefined
      then Inl (TypeError (''Cannot read properties of ''
                  @ (if v = JNull then ''null'' else ''undefined'')
                  @ '' (reading '' @ [CHR 0x27] @ k @ [CHR 0x27] @ '')''))
      else case map_of (own_props v) k of
             Some x \<Rightarrow> Inr x
           | None \<Rightarrow>
               (case v of
                  JArr xs \<Rightarrow>
                    Inr (if k = ''length'' then JNum (Fin (of_nat (length xs))) else JUndefined)
                | JStr str \<Rightarrow>
                    Inr (if k = ''length'' then JNum (Fin (of_nat (length str))) else JUndefined)
                | _ \<Rightarrow> Inr JUndefined))"

text \<open>\<^verbatim>\<open>v?.k\<close>\<close>

definition get_prop_opt :: "jsval \<Rightarrow> string \<Rightarrow> jsval" where
  "get_prop_opt v k =
     (case get_prop v k of Inl e \<Rightarrow> JUndefined | Inr x \<Rightarrow> x)"

definition CONFIG_PATH :: "libs \<Rightarrow> string" where
  "CONFIG_PATH L = path_resolve L ''.bcce.config.json''"

definition writeFileSync :: "libs \<Rightarrow> string \<Rightarrow> string \<Rightarrow> world \<Rightarrow> js_error + world" where
  "writeFileSync L p text w =
     (if fs w (path_resolve L p) = Some Dir
      then Inl (SystemError (''EISDIR: illegal operation on a directory, open ''
                  @ [CHR 0x27] @ p @ [CHR 0x27]))
      else Inr (w\<lparr>fs := (fs w)(path_resolve L p \<mapsto> File text)\<rparr>))"

text \<open>Lines 51-58: the existing configuration, \<^verbatim>\<open>{}\<close> when there is no file or when
  reading or parsing it throws.\<close>

definition existingConfig :: "libs \<Rightarrow> world \<Rightarrow> jsval" where
  "existingConfig L w =
     (if existsSync L w (CONFIG_PATH L)
      then (case readFileSync L w (CONFIG_PATH L) of
              Inl msg \<Rightarrow> JObj []
            | Inr text \<Rightarrow> (case json_parse L text of None \<Rightarrow> JObj [] | Some v \<Rightarrow> v))
      else JObj [])"

text \<open>Lines 60-72: the object literal, its properties set in the order written.\<close>

definition merged_config ::
  "string \<Rightarrow> jsval \<Rightarrow> (string \<times> jsval) list \<Rightarrow> js_error + (string \<times> jsval) list" where
  "merged_config timestamp existing cfg =
     (case get_prop existing ''metadata'' of
        Inl e \<Rightarrow> Inl e
      | Inr metadata \<Rightarrow>
          (let created = get_prop_opt metadata ''created'';
               defaults =
                 [(''version'', JStr ''0.1.0''),
                  (''auth'', JStr ''identity-center''),
                  (''regions'', JArr [JStr ''us-east-1'']),
                  (''guardrails'', JBool False),
                  (''privatelink'', JBool False),
                  (''metadata'', JObj
                     [(''created'', if truthy created then created else JStr timestamp),
                      (''updated'', JStr timestamp)])]
           in Inr (spread cfg (spread (own_props existing) defaults))))"

text \<open>\<open>timestamp\<close> is \<^verbatim>\<open>new Date().toISOString()\<close> at the call.\<close>

definition saveConfig ::
  "libs \<Rightarrow> string \<Rightarrow> (string \<times> jsval) list \<Rightarrow> world \<Rightarrow> js_error + (string \<times> world)" where
  "saveConfig L timestamp cfg w =
     (case merged_config timestamp (existingConfig L w) cfg of
        Inl e \<Rightarrow> Inl e
      | Inr config \<Rightarrow>
          (case writeFileSync L (CONFIG_PATH L) (json_stringify_indent L (JObj config)) w of
             Inl e \<Rightarrow> Inl e
           | Inr w' \<Rightarrow> Inr (CONFIG_PATH L, w')))"

section \<open>The inputs the claims speak of\<close>

text \<open>A step of type prompt, cmd or agent without its field \<^verbatim>\<open>prompt_file\<close>,
  \<^verbatim>\<open>command\<close> or \<^verbatim>\<open>policy\<close>, and the name of that field.\<close>

definition lacks_mandatory_field :: "step \<Rightarrow> bool" where
  "lacks_mandatory_field s =
     (step_type s = ''prompt'' \<and> prompt_file s = JUndefined
      \<or> step_type s = ''cmd'' \<and> command s = JUndefined
      \<or> step_type s = ''agent'' \<and> policy s = JUndefined)"

definition mandatory_field :: "step \<Rightarrow> string" where
  "mandatory_field s =
     (if step_type s = ''prompt'' then ''prompt_file''
      else if step_type s = ''cmd'' then ''command''
      else ''policy'')"



section \<open>Example documents\<close>

text \<open>
  Concrete inputs: workflow files in YAML flow style with the documents they parse to, three
  schemas with their compiled validators, and a configuration file. The instance of the
  library functions knows these texts and throws on any other.
\<close>

definition build_fix_text :: string where
  "build_fix_text =
     ''model: ${BEDROCK_MODEL_ID}'' @ [nl] @
       ''steps: [{id: build, type: cmd, command: make}, {id: fix, type: '' @
       ''agent, policy: {timeout_seconds: 300, max_files: 20, max_edits: '' @
       ''1, allowed_paths: [src/**], cmd_allowlist: [npm]}}]'' @ [nl]"

definition late_duplicate_text :: string where
  "late_duplicate_text =
     ''steps: [{id: A, type: prompt}, {id: B, type: cmd, command: '' @
       ''make}, {id: B, type: cmd, command: make test}]'' @ [nl]"

definition rebuild_text :: string where
  "rebuild_text =
     ''steps: [{id: build, type: cmd, command: make}, {id: test, type: '' @
       ''cmd, command: make test}, {id: build, type: cmd, command: make '' @ ''again}]'' @ [nl]"

definition two_missing_text :: string where
  "two_missing_text =
     ''steps: [{id: A, type: prompt}, {id: B, type: cmd}]'' @ [nl]"

definition review_text :: string where
  "review_text =
     ''steps: [{id: build, type: cmd, command: make}, {id: review, '' @ ''type: prompt}]'' @
       [nl]"

definition zero_edit_text :: string where
  "zero_edit_text =
     ''steps: [{id: fix, type: agent, policy: {timeout_seconds: 300, '' @
       ''max_files: 1, max_edits: 0, allowed_paths: [src/**], '' @ ''cmd_allowlist: []}}]'' @
       [nl]"

definition bare_text :: string where
  "bare_text =
     ''steps: [{id: build, type: cmd, command: make}]'' @ [nl]"

definition accept_all_schema_text :: string where
  "accept_all_schema_text =
     ''{}''"

definition required_schema_text :: string where
  "required_schema_text =
     ''{'' @ [dq] @ ''type'' @ [dq] @ '': '' @ [dq] @ ''object'' @ [dq] @ '', '' @ [dq] @
       ''required'' @ [dq] @ '': ['' @ [dq] @ ''model'' @ [dq] @ '', '' @ [dq] @
       ''guardrails'' @ [dq] @ '']}''"

definition max_edits_schema_text :: string where
  "max_edits_schema_text =
     ''{'' @ [dq] @ ''properties'' @ [dq] @ '': {'' @ [dq] @ ''steps'' @ [dq] @ '': {'' @ [dq] @
       ''items'' @ [dq] @ '': {'' @ [dq] @ ''properties'' @ [dq] @ '': {'' @ [dq] @ ''policy'' @
       [dq] @ '': {'' @ [dq] @ ''properties'' @ [dq] @ '': {'' @ [dq] @ ''max_edits'' @ [dq] @
       '': {'' @ [dq] @ ''minimum'' @ [dq] @ '': 1}}}}}}}}''"

definition old_config_text :: string where
  "old_config_text =
     ''{'' @ [dq] @ ''auth'' @ [dq] @ '': '' @ [dq] @ ''cognito-oidc'' @ [dq] @ '', '' @ [dq] @
       ''metadata'' @ [dq] @ '': {'' @ [dq] @ ''created'' @ [dq] @ '': '' @ [dq] @
       ''2024-01-01T00:00:00.000Z'' @ [dq] @ '', '' @ [dq] @ ''updated'' @ [dq] @ '': '' @
       [dq] @ ''2024-02-02T00:00:00.000Z'' @ [dq] @ ''}}''"

definition policy_one_edit :: jsval where
  "policy_one_edit = JObj
     [(''timeout_seconds'', JNum (Fin 300)), (''max_files'', JNum (Fin 20)),
      (''max_edits'', JNum (Fin 1)), (''allowed_paths'', JArr [JStr ''src/**'']),
      (''cmd_allowlist'', JArr [JStr ''npm''])]"

definition policy_zero_edits :: jsval where
  "policy_zero_edits = JObj
     [(''timeout_seconds'', JNum (Fin 300)), (''max_files'', JNum (Fin 1)),
      (''max_edits'', JNum (Fin 0)), (''allowed_paths'', JArr [JStr ''src/**'']),
      (''cmd_allowlist'', JArr [])]"

definition cmd_step :: "string \<Rightarrow> string \<Rightarrow> step" where
  "cmd_step i c = \<lparr>step_id = i, step_type = ''cmd'', prompt_file = JUndefined,
     command = JStr c, policy = JUndefined\<rparr>"

definition bare_step :: "string \<Rightarrow> string \<Rightarrow> step" where
  "bare_step i t = \<lparr>step_id = i, step_type = t, prompt_file = JUndefined,
     command = JUndefined, policy = JUndefined\<rparr>"

definition agent_step :: "string \<Rightarrow> jsval \<Rightarrow> step" where
  "agent_step i p = \<lparr>step_id = i, step_type = ''agent'', prompt_file = JUndefined,
     command = JUndefined, policy = p\<rparr>"

definition build_step :: step where
  "build_step = cmd_step ''build'' ''make''"

definition fix_step :: step where
  "fix_step = agent_step ''fix'' policy_one_edit"

definition steps_only :: "step list \<Rightarrow> workflow" where
  "steps_only ss = \<lparr>steps = Some ss, model = None, guardrails = None\<rparr>"

definition build_fix_doc :: workflow where
  "build_fix_doc = \<lparr>steps = Some [build_step, fix_step], model = Some ''${BEDROCK_MODEL_ID}'',
     guardrails = None\<rparr>"

definition late_duplicate_doc :: workflow where
  "late_duplicate_doc =
     steps_only [bare_step ''A'' ''prompt'', cmd_step ''B'' ''make'', cmd_step ''B'' ''make test'']"

definition rebuild_doc :: workflow where
  "rebuild_doc =
     steps_only [build_step, cmd_step ''test'' ''make test'', cmd_step ''build'' ''make again'']"

definition two_missing_doc :: workflow where
  "two_missing_doc = steps_only [bare_step ''A'' ''prompt'', bare_step ''B'' ''cmd'']"

definition review_doc :: workflow where
  "review_doc = steps_only [build_step, bare_step ''review'' ''prompt'']"

definition zero_edit_doc :: workflow where
  "zero_edit_doc = steps_only [agent_step ''fix'' policy_zero_edits]"

definition bare_doc :: workflow where
  "bare_doc = steps_only [build_step]"

definition example_yaml :: "string \<Rightarrow> yaml_error + workflow" where
  "example_yaml text =
     (if text = build_fix_text then Inr build_fix_doc
      else if text = late_duplicate_text then Inr late_duplicate_doc
      else if text = rebuild_text then Inr rebuild_doc
      else if text = two_missing_text then Inr two_missing_doc
      else if text = review_text then Inr review_doc
      else if text = zero_edit_text then Inr zero_edit_doc
      else if text = bare_text then Inr bare_doc
      else Inl \<lparr>yaml_message = ''Unexpected input'', linePos = Some (1, 1)\<rparr>)"

text \<open>The validator of the schema \<^verbatim>\<open>{}\<close>, which every document satisfies.\<close>

definition accept_all :: "workflow \<Rightarrow> ajv_result" where
  "accept_all doc = \<lparr>valid = True, errors = None\<rparr>"

text \<open>The violations of a schema that requires \<^verbatim>\<open>model\<close> and \<^verbatim>\<open>guardrails\<close>.\<close>

definition required_error :: "string \<Rightarrow> ajv_error" where
  "required_error k = \<lparr>instancePath = [],
     message = Some (''must have required property '' @ [sq] @ k @ [sq]), data = JUndefined\<rparr>"

definition required_violations :: "workflow \<Rightarrow> ajv_error list" where
  "required_violations doc =
     (if model doc = None then [required_error ''model''] else [])
     @ (if guardrails doc = None then [required_error ''guardrails''] else [])"

text \<open>The violations of a schema that gives \<^verbatim>\<open>max_edits\<close> of the policy of a step the
  minimum 1: one for each step whose policy has a smaller number there.\<close>

definition minimum_error :: "nat \<Rightarrow> ajv_error" where
  "minimum_error i = \<lparr>instancePath = ''/steps/'' @ show_nat i @ ''/policy/max_edits'',
     message = Some ''must be >= 1'', data = JUndefined\<rparr>"

definition below_one :: "jsval \<Rightarrow> bool" where
  "below_one v = (case v of JNum (Fin q) \<Rightarrow> q < 1 | JNum NegInf \<Rightarrow> True | _ \<Rightarrow> False)"

definition max_edits_violations :: "workflow \<Rightarrow> ajv_error list" where
  "max_edits_violations doc =
     concat (map (\<lambda>i. if below_one (get_prop_opt (policy (steps_or_empty doc ! i)) ''max_edits'')
                      then [minimum_error i] else [])
               [0..<length (steps_or_empty doc)])"

definition example_compile :: "ajv_options \<Rightarrow> string \<Rightarrow> string + (workflow \<Rightarrow> ajv_result)" where
  "example_compile opts text =
     (if text = accept_all_schema_text then Inr accept_all
      else if text = required_schema_text then Inr (ajv_validate opts required_violations)
      else if text = max_edits_schema_text then Inr (ajv_validate opts max_edits_violations)
      else Inl ''schema is invalid'')"

definition example_resolve :: "string \<Rightarrow> string" where
  "example_resolve p = (if p \<noteq> [] \<and> hd p = CHR ''/'' then p else ''/repo/'' @ p)"

definition old_config :: "(string \<times> jsval) list" where
  "old_config =
     [(''auth'', JStr ''cognito-oidc''),
      (''metadata'', JObj [(''created'', JStr ''2024-01-01T00:00:00.000Z''),
                           (''updated'', JStr ''2024-02-02T00:00:00.000Z'')])]"

definition example_json_parse :: "string \<Rightarrow> jsval option" where
  "example_json_parse text =
     (if text = old_config_text then Some (JObj old_config)
      else if text = ''null'' then Some JNull
      else None)"

text \<open>The configuration that saving \<^verbatim>\<open>{ regions: ['eu-west-1'] }\<close> over \<open>old_config\<close>
  produces, and its text with an indentation of two.\<close>

definition new_config :: "(string \<times> jsval) list" where
  "new_config =
     [(''version'', JStr ''0.1.0''),
      (''auth'', JStr ''cognito-oidc''),
      (''regions'', JArr [JStr ''eu-west-1'']),
      (''guardrails'', JBool False),
      (''privatelink'', JBool False),
      (''metadata'', JObj [(''created'', JStr ''2024-01-01T00:00:00.000Z''),
                           (''updated'', JStr ''2024-02-02T00:00:00.000Z'')])]"

definition new_config_text :: string where
  "new_config_text =
     ''{'' @ [nl] @
     ''  '' @ [dq] @ ''version'' @ [dq] @ '': '' @ [dq] @ ''0.1.0'' @ [dq] @ '','' @ [nl] @
     ''  '' @ [dq] @ ''auth'' @ [dq] @ '': '' @ [dq] @ ''cognito-oidc'' @ [dq] @ '','' @ [nl] @
     ''  '' @ [dq] @ ''regions'' @ [dq] @ '': ['' @ [nl] @
     ''    '' @ [dq] @ ''eu-west-1'' @ [dq] @ [nl] @
     ''  ],'' @ [nl] @
     ''  '' @ [dq] @ ''guardrails'' @ [dq] @ '': false,'' @ [nl] @
     ''  '' @ [dq] @ ''privatelink'' @ [dq] @ '': false,'' @ [nl] @
     ''  '' @ [dq] @ ''metadata'' @ [dq] @ '': {'' @ [nl] @
     ''    '' @ [dq] @ ''created'' @ [dq] @ '': '' @ [dq] @ ''2024-01-01T00:00:00.000Z'' @ [dq] @ '','' @ [nl] @
     ''    '' @ [dq] @ ''updated'' @ [dq] @ '': '' @ [dq] @ ''2024-02-02T00:00:00.000Z'' @ [dq] @ [nl] @
     ''  }'' @ [nl] @
     ''}''"

text \<open>No example reaches a call of \<^verbatim>\<open>JSON.stringify\<close> on a value other than
  \<open>new_config\<close>; there the instance answers \<^verbatim>\<open>null\<close>.\<close>

definition example_stringify :: "jsval \<Rightarrow> string" where
  "example_stringify v = (if v = JObj new_config then new_config_text else ''null'')"

definition example_libs :: libs where
  "example_libs = \<lparr>yaml_parse = example_yaml, ajv_compile = example_compile,
     path_resolve = example_resolve, json_stringify = example_stringify,
     json_stringify_indent = example_stringify, json_parse = example_json_parse\<rparr>"

definition workflow_files :: "(string \<times> fsnode) list" where
  "workflow_files =
     [(''/repo/build.yml'', File build_fix_text),
      (''/repo/dup.yml'', File late_duplicate_text),
      (''/repo/rebuild.yml'', File rebuild_text),
      (''/repo/missing.yml'', File two_missing_text),
      (''/repo/review.yml'', File review_text),
      (''/repo/zero.yml'', File zero_edit_text),
      (''/repo/bare.yml'', File bare_text)]"

text \<open>A working directory whose schema file is \<^verbatim>\<open>{}\<close>.\<close>

definition permissive_world :: world where
  "permissive_world = \<lparr>
     fs = map_of ((''/repo/workflows/schemas/workflow.v1.schema.json'', File accept_all_schema_text)
                  # workflow_files),
     console = [], exit_code = None\<rparr>"

text \<open>A working directory whose schema requires \<^verbatim>\<open>model\<close> and \<^verbatim>\<open>guardrails\<close>.\<close>

definition strict_world :: world where
  "strict_world = \<lparr>
     fs = map_of ((''/repo/workflows/schemas/workflow.v1.schema.json'', File required_schema_text)
                  # workflow_files),
     console = [], exit_code = None\<rparr>"

text \<open>A working directory whose schema bounds \<^verbatim>\<open>max_edits\<close> from below.\<close>

definition bounded_world :: world where
  "bounded_world = \<lparr>
     fs = map_of ((''/repo/workflows/schemas/workflow.v1.schema.json'', File max_edits_schema_text)
                  # workflow_files),
     console = [], exit_code = None\<rparr>"

text \<open>A working directory with a configuration file written earlier.\<close>

definition configured_world :: world where
  "configured_world = \<lparr>
     fs = map_of [(''/repo/.bcce.config.json'', File old_config_text)],
     console = [], exit_code = None\<rparr>"


section \<open>Properties of the diagram command\<close>





















section \<open>Properties of the validate command\<close>

lemma console_errors_console [simp]:
  "console (console_errors ls w) = console w @ map (Pair Stderr) ls"
  by (induction ls arbitrary: w) (simp_all add: console_error_def)

lemma console_errors_exit_code [simp]: "exit_code (console_errors ls w) = exit_code w"
  by (induction ls arbitrary: w) (simp_all add: console_error_def)

lemma console_errors_fs [simp]: "fs (console_errors ls w) = fs w"
  by (induction ls arbitrary: w) (simp_all add: console_error_def)

lemma validate_action_loaded:
  assumes "loads L file w doc validate"
  shows "validate_action L file w =
           (if \<not> valid (validate doc) then report_schema_errors L file (validate doc) w
            else semantic_pass L file doc w)"
  using assms by (auto simp: loads_def validate_action_def Let_def)

lemma check_steps_clean_prefix:
  assumes "distinct (map step_id pre)" "set (map step_id pre) \<inter> stepIds = {}"
    "\<forall>s \<in> set pre. \<not> fails_field_check s"
  shows "check_steps (pre @ rest) stepIds = check_steps rest (stepIds \<union> set (map step_id pre))"
  using assms
proof (induction pre arbitrary: stepIds)
  case Nil
  then show ?case by simp
next
  case (Cons s pre)
  have "check_steps ((s # pre) @ rest) stepIds = check_steps (pre @ rest) (insert (step_id s) stepIds)"
    using Cons.prems by (auto simp: fails_field_check_def)
  also have "\<dots> = check_steps rest (insert (step_id s) stepIds \<union> set (map step_id pre))"
    using Cons.prems by (intro Cons.IH) auto
  finally show ?case by simp
qed

lemma check_steps_None_iff:
  "check_steps ss stepIds = None \<longleftrightarrow>
     distinct (map step_id ss) \<and> set (map step_id ss) \<inter> stepIds = {}
     \<and> (\<forall>s \<in> set ss. \<not> fails_field_check s)"
  by (induction ss arbitrary: stepIds) (auto simp: fails_field_check_def)

lemma check_steps_first_duplicate:
  assumes "j < length ss" "distinct (map step_id (take j ss))"
    "step_id (ss ! j) \<in> set (map step_id (take j ss))"
    "\<forall>k < j. \<not> fails_field_check (ss ! k)"
  shows "check_steps ss {} = Some (duplicate_message (ss ! j))"
proof -
  have split: "ss = take j ss @ ss ! j # drop (Suc j) ss"
    using assms(1) by (simp add: id_take_nth_drop)
  have clean: "\<forall>s \<in> set (take j ss). \<not> fails_field_check s"
    using assms(1,4) by (auto simp: in_set_conv_nth)
  have "check_steps ss {} = check_steps (take j ss @ ss ! j # drop (Suc j) ss) {}"
    using split by simp
  also have "\<dots> = check_steps (ss ! j # drop (Suc j) ss) ({} \<union> set (map step_id (take j ss)))"
    using assms(2) clean by (intro check_steps_clean_prefix) auto
  also have "\<dots> = Some (duplicate_message (ss ! j))"
    using assms(3) by simp
  finally show ?thesis .
qed

lemma check_steps_first_field:
  assumes "k < length ss" "distinct (map step_id (take (Suc k) ss))"
    "\<forall>i < k. \<not> fails_field_check (ss ! i)" "fails_field_check (ss ! k)"
  shows "check_steps ss {} = Some (field_message (ss ! k))"
proof -
  have split: "ss = take k ss @ ss ! k # drop (Suc k) ss"
    using assms(1) by (simp add: id_take_nth_drop)
  have tk: "take (Suc k) ss = take k ss @ [ss ! k]"
    using assms(1) by (simp add: take_Suc_conv_app_nth)
  have clean: "\<forall>s \<in> set (take k ss). \<not> fails_field_check s"
    using assms(1,3) by (auto simp: in_set_conv_nth)
  have fresh: "step_id (ss ! k) \<notin> set (map step_id (take k ss))" and d: "distinct (map step_id (take k ss))"
    using assms(2) tk by auto
  have "check_steps ss {} = check_steps (take k ss @ ss ! k # drop (Suc k) ss) {}"
    using split by simp
  also have "\<dots> = check_steps (ss ! k # drop (Suc k) ss) ({} \<union> set (map step_id (take k ss)))"
    using d clean by (intro check_steps_clean_prefix) auto
  also have "\<dots> = Some (field_message (ss ! k))"
    using fresh assms(4) by (auto simp: fails_field_check_def field_message_def)
  finally show ?thesis .
qed


lemma report_schema_errors_console:
  "console (report_schema_errors L file r w) =
     console w @ map (Pair Stderr)
       ((cross_mark @ '' Schema validation failed:'')
        # concat (map (schema_error_lines L) (case errors r of None \<Rightarrow> [] | Some es \<Rightarrow> es))
        @ [''   File: '' @ path_resolve L file])"
  by (simp add: report_schema_errors_def console_error_def process_exit_def)

lemma report_schema_errors_exit: "exit_code (report_schema_errors L file r w) = Some 1"
  by (simp add: report_schema_errors_def console_error_def process_exit_def)

lemma validate_passed_exit: "exit_code (validate_passed L file doc w) = exit_code w"
  by (simp add: validate_passed_def console_log_def Let_def split: option.splits)

lemma semantic_pass_exit:
  "exit_code (semantic_pass L file doc w) =
     (if check_steps (steps_or_empty doc) {} = None then exit_code w else Some 1)"
  by (auto simp: semantic_pass_def validate_passed_exit process_exit_def console_error_def
           split: option.splits)

lemma semantic_pass_message:
  "check_steps (steps_or_empty doc) {} = Some msg \<Longrightarrow>
     semantic_pass L file doc w = process_exit 1 (console_error msg w)"
  by (simp add: semantic_pass_def)

lemma schema_errors_printed:
  assumes "loads L file w doc validate"
    and "\<not> valid (validate doc)"
    and "errors (validate doc) = Some es"
  shows "exit_code (validate_action L file w) = Some 1
       \<and> console (validate_action L file w) =
           console w @ map (Pair Stderr)
             ((cross_mark @ '' Schema validation failed:'')
              # concat (map (schema_error_lines L) es)
              @ [''   File: '' @ path_resolve L file])
       \<and> (\<forall>e \<in> set es.
             (Stderr, ''   '' @ (if instancePath e \<noteq> [] then instancePath e else ''root'') @ '': ''
                        @ (case message e of None \<Rightarrow> ''undefined'' | Some m \<Rightarrow> m))
               \<in> set (console (validate_action L file w)))"
proof -
  have act: "validate_action L file w = report_schema_errors L file (validate doc) w"
    using assms(1,2) by (simp add: validate_action_loaded)
  have out: "console (validate_action L file w) =
           console w @ map (Pair Stderr)
             ((cross_mark @ '' Schema validation failed:'')
              # concat (map (schema_error_lines L) es)
              @ [''   File: '' @ path_resolve L file])"
    using assms(3) by (simp add: act report_schema_errors_console)
  have each: "(Stderr, ''   '' @ (if instancePath e \<noteq> [] then instancePath e else ''root'') @ '': ''
                        @ (case message e of None \<Rightarrow> ''undefined'' | Some m \<Rightarrow> m))
               \<in> set (console (validate_action L file w))" if "e \<in> set es" for e
  proof -
    have "''   '' @ (if instancePath e \<noteq> [] then instancePath e else ''root'') @ '': ''
                        @ (case message e of None \<Rightarrow> ''undefined'' | Some m \<Rightarrow> m)
            \<in> set (schema_error_lines L e)"
      by (simp add: schema_error_lines_def)
    then have "''   '' @ (if instancePath e \<noteq> [] then instancePath e else ''root'') @ '': ''
                        @ (case message e of None \<Rightarrow> ''undefined'' | Some m \<Rightarrow> m)
            \<in> set (concat (map (schema_error_lines L) es))"
      using that by auto
    then show ?thesis unfolding out by auto
  qed
  show ?thesis
    using out each by (simp add: act report_schema_errors_exit)
qed

lemmas example_files =
  loads_def existsSync_def readFileSync_def example_libs_def example_resolve_def
  strict_world_def permissive_world_def bounded_world_def workflow_files_def schema_file_def
  example_yaml_def example_compile_def ajv_def
  bare_text_def build_fix_text_def late_duplicate_text_def rebuild_text_def
  two_missing_text_def review_text_def zero_edit_text_def
  accept_all_schema_text_def required_schema_text_def max_edits_schema_text_def dq_def nl_def

lemma loads_schema_loads:
  "loads_schema L file w doc violations \<Longrightarrow> loads L file w doc (ajv_validate ajv violations)"
  by (auto simp: loads_schema_def loads_def)

lemma ajv_collects_all:
  "violations doc \<noteq> [] \<Longrightarrow>
     \<not> valid (ajv_validate ajv violations doc)
     \<and> errors (ajv_validate ajv violations doc) = Some (violations doc)"
  by (cases "violations doc") (simp_all add: ajv_validate_def ajv_def)

text \<open>
  C7. Let the schema have the violations \<open>violations doc\<close> for the document, at least one.
  With the Ajv instance of line 7 (\<^verbatim>\<open>allErrors: true\<close>) the command exits with code 1 and
  its output is the heading, the lines of every violation in order (each with the path,
  \<^verbatim>\<open>root\<close> for the empty one, and the message) and the file: none is left out, however
  many there are.
\<close>

theorem schema_violations_all_reported:
  assumes "loads_schema L file w doc violations"
    and "violations doc \<noteq> []"
  shows "exit_code (validate_action L file w) = Some 1
       \<and> console (validate_action L file w) =
           console w @ map (Pair Stderr)
             ((cross_mark @ '' Schema validation failed:'')
              # concat (map (schema_error_lines L) (violations doc))
              @ [''   File: '' @ path_resolve L file])
       \<and> (\<forall>e \<in> set (violations doc).
             (Stderr, ''   '' @ (if instancePath e \<noteq> [] then instancePath e else ''root'') @ '': ''
                        @ (case message e of None \<Rightarrow> ''undefined'' | Some m \<Rightarrow> m))
               \<in> set (console (validate_action L file w)))"
  using schema_errors_printed [OF loads_schema_loads [OF assms(1)], of "violations doc"]
    ajv_collects_all [of violations doc] assms(2)
  by blast

lemma loads_schema_bare_strict:
  "loads_schema example_libs ''bare.yml'' strict_world bare_doc required_violations"
  unfolding loads_schema_def by (simp add: example_files)

theorem schema_violations_all_reported_witness:
  "required_violations bare_doc = [required_error ''model'', required_error ''guardrails'']
   \<and> exit_code (validate_action example_libs ''bare.yml'' strict_world) = Some 1
   \<and> console (validate_action example_libs ''bare.yml'' strict_world) =
       [(Stderr, cross_mark @ '' Schema validation failed:''),
        (Stderr, ''   root: must have required property '' @ [sq] @ ''model'' @ [sq]),
        (Stderr, ''   root: must have required property '' @ [sq] @ ''guardrails'' @ [sq]),
        (Stderr, ''   File: /repo/bare.yml'')]"
proof -
  have vs: "required_violations bare_doc = [required_error ''model'', required_error ''guardrails'']"
    by (simp add: required_violations_def bare_doc_def steps_only_def)
  then have ne: "required_violations bare_doc \<noteq> []"
    by simp
  show ?thesis
    using schema_violations_all_reported [OF loads_schema_bare_strict ne] vs
    by (simp add: schema_error_lines_def required_error_def example_libs_def
          example_resolve_def strict_world_def)
qed

lemma duplicate_not_distinct:
  assumes "j < length ss" "step_id (ss ! j) \<in> set (map step_id (take j ss))"
  shows "\<not> distinct (map step_id ss)"
proof
  assume d: "distinct (map step_id ss)"
  have "ss = take j ss @ ss ! j # drop (Suc j) ss"
    using assms(1) by (simp add: id_take_nth_drop)
  then have "map step_id ss = map step_id (take j ss) @ step_id (ss ! j) # map step_id (drop (Suc j) ss)"
    by (metis list.simps(9) map_append)
  with d have "step_id (ss ! j) \<notin> set (map step_id (take j ss))"
    by (metis distinct_append distinct.simps(2) disjoint_iff list.set_intros(1))
  with assms(2) show False by simp
qed

lemma validate_action_exit:
  assumes "loads L file w doc validate"
  shows "exit_code (validate_action L file w) =
           (if valid (validate doc) \<and> check_steps (steps_or_empty doc) {} = None
            then exit_code w else Some 1)"
  using assms by (simp add: validate_action_loaded report_schema_errors_exit semantic_pass_exit)

text \<open>
  C4 (as amended). Let \<open>j\<close> be the first position whose id already occurred before it.
  Then validate rejects the document, and when the document passes the schema and no
  step before position \<open>j\<close> fails the field check of the loop, the one line written is
  the duplicate message with the id of step \<open>j\<close>.
\<close>

theorem first_duplicate_named:
  assumes "loads L file w doc validate"
    and "j < length (steps_or_empty doc)"
    and "distinct (map step_id (take j (steps_or_empty doc)))"
    and "step_id (steps_or_empty doc ! j) \<in> set (map step_id (take j (steps_or_empty doc)))"
  shows "exit_code (validate_action L file w) = Some 1
       \<and> (valid (validate doc) \<and> (\<forall>k < j. \<not> fails_field_check (steps_or_empty doc ! k)) \<longrightarrow>
            console (validate_action L file w) =
              console w @ [(Stderr, cross_mark @ '' Duplicate step ID: ''
                                      @ step_id (steps_or_empty doc ! j))])"
proof -
  have "\<not> distinct (map step_id (steps_or_empty doc))"
    using assms(2,4) by (rule duplicate_not_distinct)
  then have "check_steps (steps_or_empty doc) {} \<noteq> None"
    by (simp add: check_steps_None_iff)
  then have rejected: "exit_code (validate_action L file w) = Some 1"
    using assms(1) by (auto simp: validate_action_exit)
  have named: "console (validate_action L file w) =
              console w @ [(Stderr, cross_mark @ '' Duplicate step ID: ''
                                      @ step_id (steps_or_empty doc ! j))]"
    if v: "valid (validate doc)" and clean: "\<forall>k < j. \<not> fails_field_check (steps_or_empty doc ! k)"
  proof -
    have "check_steps (steps_or_empty doc) {} = Some (duplicate_message (steps_or_empty doc ! j))"
      using assms(2,3,4) clean by (rule check_steps_first_duplicate)
    then have "validate_action L file w =
        process_exit 1 (console_error (duplicate_message (steps_or_empty doc ! j)) w)"
      using assms(1) v by (simp add: validate_action_loaded semantic_pass_message)
    then show ?thesis
      by (simp add: process_exit_def console_error_def duplicate_message_def)
  qed
  show ?thesis using rejected named by blast
qed

lemma loads_rebuild:
  "loads example_libs ''rebuild.yml'' permissive_world rebuild_doc accept_all"
  by (simp add: example_files)

theorem first_duplicate_named_witness:
  "map step_id (steps_or_empty rebuild_doc) = [''build'', ''test'', ''build'']
   \<and> exit_code (validate_action example_libs ''rebuild.yml'' permissive_world) = Some 1
   \<and> console (validate_action example_libs ''rebuild.yml'' permissive_world) =
       [(Stderr, cross_mark @ '' Duplicate step ID: build'')]"
proof -
  have j: "2 < length (steps_or_empty rebuild_doc)"
    and d: "distinct (map step_id (take 2 (steps_or_empty rebuild_doc)))"
    and m: "step_id (steps_or_empty rebuild_doc ! 2)
             \<in> set (map step_id (take 2 (steps_or_empty rebuild_doc)))"
    and c: "\<forall>k < 2. \<not> fails_field_check (steps_or_empty rebuild_doc ! k)"
    and ids: "map step_id (steps_or_empty rebuild_doc) = [''build'', ''test'', ''build'']"
    by (simp_all add: rebuild_doc_def steps_only_def steps_or_empty_def build_step_def
          cmd_step_def fails_field_check_def less_Suc_eq numeral_2_eq_2)
  show ?thesis
    using first_duplicate_named [OF loads_rebuild j d m] c ids
    by (simp add: accept_all_def permissive_world_def rebuild_doc_def steps_only_def
          steps_or_empty_def cmd_step_def)
qed

lemma loads_dup:
  "loads example_libs ''dup.yml'' permissive_world late_duplicate_doc accept_all"
  by (simp add: example_files)

text \<open>
  C4 as stated fails for \<^verbatim>\<open>dup.yml\<close>: its ids are A, B, B, and the command exits
  at step A, which has no \<^verbatim>\<open>prompt_file\<close>, before it reaches the duplicate.
\<close>

theorem first_duplicate_not_named_counterexample:
  "map step_id (steps_or_empty late_duplicate_doc) = [''A'', ''B'', ''B'']
   \<and> valid (accept_all late_duplicate_doc)
   \<and> exit_code (validate_action example_libs ''dup.yml'' permissive_world) = Some 1
   \<and> console (validate_action example_libs ''dup.yml'' permissive_world) =
       [(Stderr, cross_mark @ '' Step '' @ [sq] @ ''A'' @ [sq] @ '': prompt steps require prompt_file'')]
   \<and> (Stderr, cross_mark @ '' Duplicate step ID: B'')
       \<notin> set (console (validate_action example_libs ''dup.yml'' permissive_world))"
proof -
  have act: "validate_action example_libs ''dup.yml'' permissive_world =
      semantic_pass example_libs ''dup.yml'' late_duplicate_doc permissive_world"
    using validate_action_loaded [OF loads_dup] by (simp add: accept_all_def)
  show ?thesis
    unfolding act
    by (simp add: accept_all_def semantic_pass_def
        late_duplicate_doc_def steps_only_def steps_or_empty_def bare_step_def cmd_step_def
        prompt_message_def process_exit_def console_error_def permissive_world_def
        cross_mark_def sq_def)
qed

lemma lacks_fails: "lacks_mandatory_field s \<Longrightarrow> fails_field_check s"
  by (auto simp: lacks_mandatory_field_def fails_field_check_def)

lemma lacks_field_message:
  "lacks_mandatory_field s \<Longrightarrow>
     field_message s =
       cross_mark @ '' Step '' @ [sq] @ step_id s @ [sq] @ '': '' @ step_type s
         @ '' steps require '' @ mandatory_field s
         @ (if step_type s = ''agent'' then '' constraints'' else [])"
  by (auto simp: lacks_mandatory_field_def field_message_def mandatory_field_def
        prompt_message_def cmd_message_def agent_message_def)

text \<open>
  C6 (as amended). A document with a prompt, cmd or agent step that lacks its mandatory
  field is rejected. When the document passes the schema, the ids up to and including
  that step are distinct and no earlier step fails the field check, the one line written
  names the id of the step and the missing field.
\<close>

theorem missing_field_named:
  assumes "loads L file w doc validate"
    and "k < length (steps_or_empty doc)"
    and "lacks_mandatory_field (steps_or_empty doc ! k)"
  shows "exit_code (validate_action L file w) = Some 1
       \<and> (valid (validate doc) \<and> distinct (map step_id (take (Suc k) (steps_or_empty doc)))
            \<and> (\<forall>i < k. \<not> fails_field_check (steps_or_empty doc ! i)) \<longrightarrow>
            console (validate_action L file w) =
              console w @ [(Stderr,
                cross_mark @ '' Step '' @ [sq] @ step_id (steps_or_empty doc ! k) @ [sq] @ '': ''
                  @ step_type (steps_or_empty doc ! k) @ '' steps require ''
                  @ mandatory_field (steps_or_empty doc ! k)
                  @ (if step_type (steps_or_empty doc ! k) = ''agent'' then '' constraints''
                     else []))])"
proof -
  have fails: "fails_field_check (steps_or_empty doc ! k)"
    using assms(3) by (rule lacks_fails)
  then have "\<exists>s \<in> set (steps_or_empty doc). fails_field_check s"
    using assms(2) nth_mem by blast
  then have "check_steps (steps_or_empty doc) {} \<noteq> None"
    by (simp add: check_steps_None_iff)
  then have rejected: "exit_code (validate_action L file w) = Some 1"
    using assms(1) by (auto simp: validate_action_exit)
  have named: "console (validate_action L file w) =
              console w @ [(Stderr,
                cross_mark @ '' Step '' @ [sq] @ step_id (steps_or_empty doc ! k) @ [sq] @ '': ''
                  @ step_type (steps_or_empty doc ! k) @ '' steps require ''
                  @ mandatory_field (steps_or_empty doc ! k)
                  @ (if step_type (steps_or_empty doc ! k) = ''agent'' then '' constraints''
                     else []))]"
    if v: "valid (validate doc)"
      and d: "distinct (map step_id (take (Suc k) (steps_or_empty doc)))"
      and clean: "\<forall>i < k. \<not> fails_field_check (steps_or_empty doc ! i)"
  proof -
    have "check_steps (steps_or_empty doc) {} = Some (field_message (steps_or_empty doc ! k))"
      using assms(2) d clean fails by (rule check_steps_first_field)
    then have "validate_action L file w =
        process_exit 1 (console_error (field_message (steps_or_empty doc ! k)) w)"
      using assms(1) v by (simp add: validate_action_loaded semantic_pass_message)
    then show ?thesis
      using lacks_field_message [OF assms(3)]
      by (simp add: process_exit_def console_error_def)
  qed
  show ?thesis using rejected named by blast
qed

lemma loads_review:
  "loads example_libs ''review.yml'' permissive_world review_doc accept_all"
  by (simp add: example_files)

theorem missing_field_named_witness:
  "lacks_mandatory_field (steps_or_empty review_doc ! 1)
   \<and> exit_code (validate_action example_libs ''review.yml'' permissive_world) = Some 1
   \<and> console (validate_action example_libs ''review.yml'' permissive_world) =
       [(Stderr, cross_mark @ '' Step '' @ [sq] @ ''review'' @ [sq]
                   @ '': prompt steps require prompt_file'')]"
proof -
  have k: "1 < length (steps_or_empty review_doc)"
    and l: "lacks_mandatory_field (steps_or_empty review_doc ! 1)"
    and d: "distinct (map step_id (take (Suc 1) (steps_or_empty review_doc)))"
    and c: "\<forall>i < 1. \<not> fails_field_check (steps_or_empty review_doc ! i)"
    by (simp_all add: review_doc_def steps_only_def steps_or_empty_def build_step_def
          cmd_step_def bare_step_def fails_field_check_def lacks_mandatory_field_def)
  show ?thesis
    using missing_field_named [OF loads_review k l] l d c
    by (simp add: accept_all_def permissive_world_def review_doc_def steps_only_def
          steps_or_empty_def bare_step_def mandatory_field_def)
qed

lemma loads_missing:
  "loads example_libs ''missing.yml'' permissive_world two_missing_doc accept_all"
  by (simp add: example_files)

text \<open>
  C6 as stated fails for \<^verbatim>\<open>missing.yml\<close>: step B lacks its \<^verbatim>\<open>command\<close>, but the
  command exits at step A, and neither B nor \<^verbatim>\<open>command\<close> is named.
\<close>

theorem later_missing_field_not_named_counterexample:
  "lacks_mandatory_field (steps_or_empty two_missing_doc ! 1)
   \<and> step_id (steps_or_empty two_missing_doc ! 1) = ''B''
   \<and> valid (accept_all two_missing_doc)
   \<and> console (validate_action example_libs ''missing.yml'' permissive_world) =
       [(Stderr, cross_mark @ '' Step '' @ [sq] @ ''A'' @ [sq]
                   @ '': prompt steps require prompt_file'')]
   \<and> (Stderr, cross_mark @ '' Step '' @ [sq] @ ''B'' @ [sq] @ '': cmd steps require command'')
       \<notin> set (console (validate_action example_libs ''missing.yml'' permissive_world))"
proof -
  have act: "validate_action example_libs ''missing.yml'' permissive_world =
      semantic_pass example_libs ''missing.yml'' two_missing_doc permissive_world"
    using validate_action_loaded [OF loads_missing] by (simp add: accept_all_def)
  show ?thesis
    unfolding act
    by (simp add: accept_all_def semantic_pass_def lacks_mandatory_field_def
        two_missing_doc_def steps_only_def steps_or_empty_def bare_step_def
        prompt_message_def process_exit_def console_error_def permissive_world_def
        cross_mark_def sq_def)
qed






section \<open>Properties of the run and resume commands\<close>

text \<open>
  C1 (as amended). The run command executes no step: for every file, options and world
  it leaves the file system as it was (so it creates no step directory), does not exit,
  and writes two lines, the banner and the dry-run or not-implemented notice.
\<close>

theorem run_executes_nothing:
  "fs (run_action file opts w) = fs w
   \<and> new_dirs w (run_action file opts w) = {}
   \<and> exit_code (run_action file opts w) = exit_code w
   \<and> console (run_action file opts w) =
       console w @
         [(Stdout, play_mark @ ''  Running workflow: '' @ file),
          (Stdout, if dryRun opts then magnifier_mark @ '' Dry run mode - would execute:''
                   else construction_mark @ '' Workflow execution not yet implemented'')]"
  by (simp add: run_action_def console_log_def new_dirs_def Let_def)

theorem run_executes_nothing_witness:
  "fs (run_action ''build.yml'' \<lparr>dryRun = True, approveAll = False\<rparr> permissive_world)
     = fs permissive_world
   \<and> console (run_action ''build.yml'' \<lparr>dryRun = True, approveAll = False\<rparr> permissive_world) =
       [(Stdout, play_mark @ ''  Running workflow: build.yml''),
        (Stdout, magnifier_mark @ '' Dry run mode - would execute:'')]"
  using run_executes_nothing [of "''build.yml''" "\<lparr>dryRun = True, approveAll = False\<rparr>" permissive_world]
  by (simp add: permissive_world_def)

lemma loads_build:
  "loads example_libs ''build.yml'' permissive_world build_fix_doc accept_all"
  by (simp add: example_files)

text \<open>
  C1 as stated fails for \<^verbatim>\<open>build.yml\<close>, a valid workflow of two steps: after
  \<^verbatim>\<open>workflow run build.yml\<close> there are no new directories, not two.
\<close>

theorem run_creates_no_step_directories_counterexample:
  "loads example_libs ''build.yml'' permissive_world build_fix_doc accept_all
   \<and> exit_code (validate_action example_libs ''build.yml'' permissive_world) = None
   \<and> length (steps_or_empty build_fix_doc) = 2
   \<and> card (new_dirs permissive_world
        (run_action ''build.yml'' \<lparr>dryRun = False, approveAll = False\<rparr> permissive_world)) = 0
   \<and> console (run_action ''build.yml'' \<lparr>dryRun = False, approveAll = False\<rparr> permissive_world) =
       [(Stdout, play_mark @ ''  Running workflow: build.yml''),
        (Stdout, construction_mark @ '' Workflow execution not yet implemented'')]"
proof -
  have ok: "exit_code (validate_action example_libs ''build.yml'' permissive_world) = None"
    using validate_action_exit [OF loads_build]
    by (simp add: accept_all_def check_steps_None_iff build_fix_doc_def steps_or_empty_def
          build_step_def fix_step_def cmd_step_def agent_step_def fails_field_check_def
          policy_one_edit_def permissive_world_def)
  show ?thesis
    using loads_build ok
    by (simp add: run_action_def console_log_def new_dirs_def Let_def permissive_world_def
          build_fix_doc_def steps_or_empty_def)
qed

text \<open>
  C3 (as amended). The resume command executes nothing and raises no error, whatever
  the run id and the step: it leaves the file system, the exit code and the error output
  as they were and writes the banner, the step when one is given, and the
  not-implemented notice.
\<close>

theorem resume_executes_nothing:
  "fs (resume_action runId opts w) = fs w
   \<and> exit_code (resume_action runId opts w) = exit_code w
   \<and> stderr_lines (resume_action runId opts w) = stderr_lines w
   \<and> console (resume_action runId opts w) =
       console w
       @ [(Stdout, forward_mark @ ''  Resume workflow run '' @ runId)]
       @ (case from_step opts of
            None \<Rightarrow> []
          | Some stepId \<Rightarrow>
              if stepId \<noteq> [] then [(Stdout, ''   Starting from step: '' @ stepId)] else [])
       @ [(Stdout, construction_mark @ '' Resume functionality not yet implemented'')]"
  by (simp add: resume_action_def console_log_def stderr_lines_def Let_def split: option.splits)

theorem resume_executes_nothing_witness:
  "fs (resume_action ''run-7'' \<lparr>from_step = None\<rparr> strict_world) = fs strict_world
   \<and> console (resume_action ''run-7'' \<lparr>from_step = None\<rparr> strict_world) =
       [(Stdout, forward_mark @ ''  Resume workflow run run-7''),
        (Stdout, construction_mark @ '' Resume functionality not yet implemented'')]"
  using resume_executes_nothing [of "''run-7''" "\<lparr>from_step = None\<rparr>" strict_world]
  by (simp add: strict_world_def)

text \<open>
  C3 as stated fails for a run id of which nothing is stored: the command returns
  normally, with no error.
\<close>

theorem resume_unknown_run_no_error_counterexample:
  "fs permissive_world (example_resolve ''.bcce_runs/run-42'') = None
   \<and> exit_code (resume_action ''run-42'' \<lparr>from_step = Some ''B''\<rparr> permissive_world) = None
   \<and> stderr_lines (resume_action ''run-42'' \<lparr>from_step = Some ''B''\<rparr> permissive_world) = []
   \<and> console (resume_action ''run-42'' \<lparr>from_step = Some ''B''\<rparr> permissive_world) =
       [(Stdout, forward_mark @ ''  Resume workflow run run-42''),
        (Stdout, ''   Starting from step: B''),
        (Stdout, construction_mark @ '' Resume functionality not yet implemented'')]"
  by (simp add: resume_action_def console_log_def stderr_lines_def Let_def permissive_world_def
        example_resolve_def workflow_files_def)

section \<open>Properties of the policy print command\<close>
















section \<open>Properties of saveConfig\<close>

lemma map_of_spread:
  "map_of (spread src target) = map_of target ++ map_of (rev src)"
  unfolding spread_def
proof (induction src arbitrary: target)
  case Nil
  then show ?case by simp
next
  case (Cons kv src)
  obtain k v where kv: "kv = (k, v)" by (cases kv)
  have "map_of (fold (\<lambda>(k, v). AList.update k v) (kv # src) target)
          = map_of (AList.update k v target) ++ map_of (rev src)"
    using Cons.IH [of "AList.update k v target"] by (simp add: kv)
  also have "\<dots> = map_of target ++ map_of (rev (kv # src))"
    by (simp add: kv update_conv' map_add_def fun_eq_iff split: option.splits)
  finally show ?case .
qed

lemma map_of_rev_distinct:
  "distinct (map fst xs) \<Longrightarrow> map_of (rev xs) = map_of xs"
  by (rule map_of_inject_set [THEN iffD2]) (simp_all add: rev_map [symmetric])

lemma spread_keeps:
  assumes "k \<notin> fst ` set src"
  shows "map_of (spread src target) k = map_of target k"
proof -
  have "map_of (rev src) k = None"
    using assms by (simp add: map_of_eq_None_iff)
  then show ?thesis by (simp add: map_of_spread map_add_def)
qed

lemma spread_takes:
  assumes "distinct (map fst src)" "map_of src k = Some v"
  shows "map_of (spread src target) k = Some v"
  using assms by (simp add: map_of_spread map_of_rev_distinct map_add_def)

lemma get_prop_defined:
  "e \<noteq> JNull \<Longrightarrow> e \<noteq> JUndefined \<Longrightarrow> get_prop e k = Inr (get_prop_opt e k)"
  by (cases e) (simp_all add: get_prop_def get_prop_opt_def split: option.splits)

lemma merged_config_defined:
  assumes "e \<noteq> JNull" "e \<noteq> JUndefined"
  shows "\<exists>defaults. merged_config timestamp e cfg = Inr (spread cfg (spread (own_props e) defaults))"
  using assms by (auto simp: merged_config_def get_prop_defined Let_def)

text \<open>A configuration file that holds \<^verbatim>\<open>null\<close> makes the call throw before anything is
  written.\<close>

lemma saveConfig_null_throws:
  assumes "existsSync L w (CONFIG_PATH L)"
    and "readFileSync L w (CONFIG_PATH L) = Inr text"
    and "json_parse L text = Some JNull"
  shows "\<exists>msg. saveConfig L timestamp cfg w = Inl (TypeError msg)"
  using assms by (simp add: saveConfig_def existingConfig_def merged_config_def get_prop_def)

text \<open>
  C10. When the configuration file exists and parses to a value \<open>e\<close> other than
  \<^verbatim>\<open>null\<close>, saveConfig writes the merged configuration, in which every own property of
  \<open>e\<close> that \<open>cfg\<close> does not supply has its existing value. In particular an existing
  \<^verbatim>\<open>metadata\<close> is kept whole, with its \<^verbatim>\<open>created\<close> and its \<^verbatim>\<open>updated\<close>, in place of the
  one computed from the timestamp of the call.
\<close>

theorem saveConfig_keeps_existing_fields:
  assumes "existsSync L w (CONFIG_PATH L)"
    and "readFileSync L w (CONFIG_PATH L) = Inr text"
    and "json_parse L text = Some e"
    and "e \<noteq> JNull" and "e \<noteq> JUndefined"
    and "distinct (map fst (own_props e))"
  shows "\<exists>config.
           merged_config timestamp e cfg = Inr config
         \<and> saveConfig L timestamp cfg w =
             Inr (CONFIG_PATH L,
                  w\<lparr>fs := (fs w)(path_resolve L (CONFIG_PATH L)
                                   \<mapsto> File (json_stringify_indent L (JObj config)))\<rparr>)
         \<and> (\<forall>k v. map_of (own_props e) k = Some v \<and> k \<notin> fst ` set cfg
                 \<longrightarrow> map_of config k = Some v)
         \<and> (\<forall>m. map_of (own_props e) ''metadata'' = Some m \<and> ''metadata'' \<notin> fst ` set cfg
                 \<longrightarrow> get_prop (JObj config) ''metadata'' = Inr m
                   \<and> get_prop_opt (get_prop_opt (JObj config) ''metadata'') ''created''
                       = get_prop_opt m ''created''
                   \<and> get_prop_opt (get_prop_opt (JObj config) ''metadata'') ''updated''
                       = get_prop_opt m ''updated'')"
proof -
  obtain defaults where config:
      "merged_config timestamp e cfg = Inr (spread cfg (spread (own_props e) defaults))"
    using merged_config_defined [OF assms(4,5)] by blast
  let ?config = "spread cfg (spread (own_props e) defaults)"
  have ex: "existingConfig L w = e"
    using assms(1,2,3) by (simp add: existingConfig_def)
  have notdir: "fs w (path_resolve L (CONFIG_PATH L)) \<noteq> Some Dir"
    using assms(2) by (auto simp: readFileSync_def split: option.splits fsnode.splits)
  have saved: "saveConfig L timestamp cfg w =
             Inr (CONFIG_PATH L,
                  w\<lparr>fs := (fs w)(path_resolve L (CONFIG_PATH L)
                                   \<mapsto> File (json_stringify_indent L (JObj ?config)))\<rparr>)"
    using notdir by (simp add: saveConfig_def ex config writeFileSync_def)
  have kept: "map_of ?config k = Some v"
    if "map_of (own_props e) k = Some v" "k \<notin> fst ` set cfg" for k v
  proof -
    have "map_of ?config k = map_of (spread (own_props e) defaults) k"
      using that(2) by (simp add: spread_keeps)
    also have "\<dots> = Some v"
      using assms(6) that(1) by (rule spread_takes)
    finally show ?thesis .
  qed
  have meta: "get_prop (JObj ?config) ''metadata'' = Inr m
                   \<and> get_prop_opt (get_prop_opt (JObj ?config) ''metadata'') ''created''
                       = get_prop_opt m ''created''
                   \<and> get_prop_opt (get_prop_opt (JObj ?config) ''metadata'') ''updated''
                       = get_prop_opt m ''updated''"
    if "map_of (own_props e) ''metadata'' = Some m" "''metadata'' \<notin> fst ` set cfg" for m
  proof -
    have "map_of ?config ''metadata'' = Some m"
      using that by (rule kept)
    then show ?thesis
      by (simp add: get_prop_def get_prop_opt_def own_props_def)
  qed
  show ?thesis
    using config saved kept meta by blast
qed

theorem saveConfig_keeps_existing_fields_witness:
  "saveConfig example_libs ''2025-03-03T00:00:00.000Z'' [(''regions'', JArr [JStr ''eu-west-1''])]
     configured_world =
     Inr (''/repo/.bcce.config.json'',
          configured_world\<lparr>fs := (fs configured_world)
             (''/repo/.bcce.config.json'' \<mapsto> File new_config_text)\<rparr>)
   \<and> map_of new_config ''auth'' = Some (JStr ''cognito-oidc'')
   \<and> get_prop (JObj new_config) ''metadata'' =
       Inr (JObj [(''created'', JStr ''2024-01-01T00:00:00.000Z''),
                  (''updated'', JStr ''2024-02-02T00:00:00.000Z'')])"
proof -
  have path: "CONFIG_PATH example_libs = ''/repo/.bcce.config.json''"
    and again: "path_resolve example_libs ''/repo/.bcce.config.json'' = ''/repo/.bcce.config.json''"
    by (simp_all add: CONFIG_PATH_def example_libs_def example_resolve_def)
  have e: "existsSync example_libs configured_world (CONFIG_PATH example_libs)"
    and r: "readFileSync example_libs configured_world (CONFIG_PATH example_libs)
              = Inr old_config_text"
    unfolding path by (simp_all add: existsSync_def readFileSync_def again configured_world_def)
  have p: "json_parse example_libs old_config_text = Some (JObj old_config)"
    by (simp add: example_libs_def example_json_parse_def)
  have d: "distinct (map fst (own_props (JObj old_config)))"
    by (simp add: old_config_def own_props_def)
  have n: "JObj old_config \<noteq> JNull" "JObj old_config \<noteq> JUndefined"
    by simp_all
  have m: "merged_config ''2025-03-03T00:00:00.000Z'' (JObj old_config)
             [(''regions'', JArr [JStr ''eu-west-1''])] = Inr new_config"
    by (simp add: merged_config_def get_prop_def own_props_def old_config_def get_prop_opt_def
          spread_def new_config_def)
  have s: "json_stringify_indent example_libs (JObj new_config) = new_config_text"
    by (simp add: example_libs_def example_stringify_def)
  from saveConfig_keeps_existing_fields [OF e r p n d,
      of "''2025-03-03T00:00:00.000Z''" "[(''regions'', JArr [JStr ''eu-west-1''])]"]
  obtain config where
    c: "merged_config ''2025-03-03T00:00:00.000Z'' (JObj old_config)
          [(''regions'', JArr [JStr ''eu-west-1''])] = Inr config"
    and saved: "saveConfig example_libs ''2025-03-03T00:00:00.000Z''
          [(''regions'', JArr [JStr ''eu-west-1''])] configured_world =
        Inr (CONFIG_PATH example_libs,
             configured_world\<lparr>fs := (fs configured_world)
               (path_resolve example_libs (CONFIG_PATH example_libs)
                  \<mapsto> File (json_stringify_indent example_libs (JObj config)))\<rparr>)"
    and kept: "\<forall>k v. map_of (own_props (JObj old_config)) k = Some v
                 \<and> k \<notin> fst ` set [(''regions'', JArr [JStr ''eu-west-1''])]
                 \<longrightarrow> map_of config k = Some v"
    by blast
  have config: "config = new_config"
    using c m by simp
  have auth: "map_of new_config ''auth'' = Some (JStr ''cognito-oidc'')"
    using kept [rule_format, of "''auth''" "JStr ''cognito-oidc''"]
    by (simp add: config old_config_def own_props_def)
  have meta: "map_of new_config ''metadata'' =
       Some (JObj [(''created'', JStr ''2024-01-01T00:00:00.000Z''),
                  (''updated'', JStr ''2024-02-02T00:00:00.000Z'')])"
    using kept [rule_format, of "''metadata''"
        "JObj [(''created'', JStr ''2024-01-01T00:00:00.000Z''),
               (''updated'', JStr ''2024-02-02T00:00:00.000Z'')]"]
    by (simp add: config old_config_def own_props_def)
  show ?thesis
    using saved auth meta
    by (simp add: config path again s get_prop_def own_props_def)
qed

end
